theory Spec2Isabelle
  imports Main "HOL-Library.Word" "HOL-Library.Signed_Division"
begin

section \<open>The speed-curve input processor (src/src/speed_curve.c)\<close>

text \<open>
  The C integer types of the source are modelled as machine words of the same width.
  Signed values are read with \<open>sint\<close>, arithmetic wraps around as two's complement
  arithmetic does, and every implicit conversion of the C code is written out:
  \<open>scast\<close> sign-extends (or narrows) a signed value and \<open>ucast\<close> zero-extends an
  unsigned one. Signed overflow is undefined in C; the theorems that relate the result
  of the arithmetic to the integers say where it does not occur.
\<close>

type_synonym int8_t = "8 word"
type_synonym uint8_t = "8 word"
type_synonym uint16_t = "16 word"
type_synonym int32_t = "32 word"
type_synonym int64_t = "64 word"

subsection \<open>Data model\<close>

text \<open>
  \<open>struct zip_speed_curve_config\<close>. The arrays \<open>codes\<close> and \<open>curve_points\<close> are lists;
  the instantiation macro \<open>ZIP_SPEED_CURVE_INST\<close> sets \<open>codes_len\<close> and
  \<open>curve_points_len\<close> to the lengths of these very arrays, so both length fields are
  \<open>length\<close> of the list. \<open>curve_points\<close> is the flattened array
  \<open>[time0, speed0, time1, speed1, ...]\<close>.
\<close>

record zip_speed_curve_config =
  type :: uint8_t
  codes :: "uint16_t list"
  curve_points :: "int32_t list"
  trigger_period_ms :: uint16_t
  track_remainders :: bool

text \<open>
  \<open>struct zip_speed_curve_data\<close>. The handler in speed_curve.c reads and writes
  \<open>is_active\<close>, \<open>start_time\<close>, \<open>last_x_direction\<close> and \<open>last_y_direction\<close>. The header
  declares, besides the two direction fields, the per-axis fields \<open>x_start_time\<close>,
  \<open>y_start_time\<close>, \<open>x_remainder\<close> and \<open>y_remainder\<close>, which no function of
  speed_curve.c mentions. The record holds the fields of both; the two \<open>float\<close>
  remainders are kept as their 32-bit patterns, which are never interpreted.
\<close>

record zip_speed_curve_data =
  is_active :: bool
  start_time :: int64_t
  x_start_time :: int64_t
  y_start_time :: int64_t
  last_x_direction :: int8_t
  last_y_direction :: int8_t
  x_remainder :: "32 word"
  y_remainder :: "32 word"

text \<open>The fields of Zephyr's \<open>struct input_event\<close> that the handler uses.\<close>

record input_event =
  ev_type :: uint8_t
  ev_code :: uint16_t
  ev_value :: int32_t

text \<open>
  The kernel clock. \<open>k_uptime_get\<close> is a function of the Zephyr kernel; every call
  returns the next reading of the millisecond uptime counter. The clock is the sequence
  of the readings still to come (\<open>clk n\<close> is the reading that the call after \<open>n\<close> more
  calls returns); each call consumes one.
\<close>

type_synonym uptime = "nat \<Rightarrow> int64_t"

definition k_uptime_get :: "uptime \<Rightarrow> int64_t \<times> uptime" where
  "k_uptime_get clk = (clk 0, (\<lambda>n. clk (Suc n)))"

text \<open>The debug messages of the handler, in the order they are logged.\<close>

datatype log_msg =
    Movement_stopped
  | Direction_changed
  | Movement_started int64_t
  | Speed_curve (log_elapsed: int64_t) (log_speed: int32_t) (log_movement: int32_t)
      (log_original: int32_t)

text \<open>
  What a call of the handler leaves behind: its return code, the event (modified in
  place), the runtime data, the clock and the messages logged.
\<close>

record outcome =
  ret :: int
  event :: input_event
  data :: zip_speed_curve_data
  clock :: uptime
  logged :: "log_msg list"

text \<open>
  Integer division is the one operation of the handler that can trap: a zero divisor,
  or the quotient of the least value by \<open>-1\<close>.
\<close>

datatype fault = Division_by_zero | Division_overflow

subsection \<open>C arithmetic\<close>

text \<open>C's \<open>/\<close> on signed operands truncates towards zero, as \<open>sdiv\<close> on \<open>int\<close> does.\<close>

definition sdiv_word :: "'a::len word \<Rightarrow> 'a word \<Rightarrow> 'a word" where
  "sdiv_word a b = word_of_int (sint a sdiv sint b)"

definition c_sdiv :: "'a::len word \<Rightarrow> 'a word \<Rightarrow> fault + 'a word" where
  "c_sdiv a b =
     (if b = 0 then Inl Division_by_zero
      else if sint a = - (2 ^ (LENGTH('a) - 1)) \<and> b = - 1 then Inl Division_overflow
      else Inr (sdiv_word a b))"

subsection \<open>code_matches\<close>

fun code_in :: "uint16_t list \<Rightarrow> uint16_t \<Rightarrow> bool" where
  "code_in [] code = False"
| "code_in (c # cs) code = (if c = code then True else code_in cs code)"

definition code_matches :: "zip_speed_curve_config \<Rightarrow> uint16_t \<Rightarrow> bool" where
  "code_matches cfg code = code_in (codes cfg) code"

subsection \<open>calculate_speed\<close>

definition num_points :: "int32_t list \<Rightarrow> nat" where
  "num_points pts = length pts div 2"

text \<open>
  The interpolation of one segment (the body of the \<open>if\<close> inside the loop):
  \<open>t1 - t0\<close> and \<open>s1 - s0\<close> are 32-bit subtractions whose results are widened to
  64 bits; the product, the quotient and the sum are 64-bit; the result is narrowed to
  \<open>int32_t\<close>.
\<close>

definition interpolate ::
  "int32_t \<Rightarrow> int32_t \<Rightarrow> int32_t \<Rightarrow> int32_t \<Rightarrow> int64_t \<Rightarrow> fault + int32_t" where
  "interpolate t0 s0 t1 s1 elapsed_ms =
     (let time_delta = (scast (t1 - t0) :: int64_t);
          speed_delta = (scast (s1 - s0) :: int64_t);
          elapsed_in_segment = elapsed_ms - scast t0
      in case c_sdiv (speed_delta * elapsed_in_segment) time_delta of
           Inl f \<Rightarrow> Inl f
         | Inr q \<Rightarrow> Inr (scast (scast s0 + q :: int64_t)))"

text \<open>
  The \<open>for\<close> loop from index \<open>i\<close> on. \<open>None\<close>: the loop ran to its end without
  returning. The loop is reached with at least one point only, so \<open>num_points - 1\<close> does
  not wrap around.
\<close>

function segment_search :: "int32_t list \<Rightarrow> int64_t \<Rightarrow> nat \<Rightarrow> (fault + int32_t) option" where
  "segment_search pts elapsed_ms i =
     (if i < num_points pts - 1 then
        (let t0 = pts ! (i * 2); s0 = pts ! (i * 2 + 1);
             t1 = pts ! ((i + 1) * 2); s1 = pts ! ((i + 1) * 2 + 1)
         in if sint t0 \<le> sint elapsed_ms \<and> sint elapsed_ms \<le> sint t1
            then Some (interpolate t0 s0 t1 s1 elapsed_ms)
            else segment_search pts elapsed_ms (i + 1))
      else None)"
  by pat_completeness auto
termination
  by (relation "measure (\<lambda>(pts, e, i). num_points pts - 1 - i)") auto

declare segment_search.simps [simp del]

definition calculate_speed :: "zip_speed_curve_config \<Rightarrow> int64_t \<Rightarrow> fault + int32_t" where
  "calculate_speed cfg elapsed_ms =
     (let pts = curve_points cfg; n = num_points pts
      in if n = 0 then Inr 0
         else
           let first_time = pts ! 0; first_speed = pts ! 1
           in if sint elapsed_ms \<le> sint first_time then Inr first_speed
              else
                let last_time = pts ! ((n - 1) * 2); last_speed = pts ! ((n - 1) * 2 + 1)
                in if sint last_time \<le> sint elapsed_ms then Inr last_speed
                   else (case segment_search pts elapsed_ms 0 of
                           Some r \<Rightarrow> r
                         | None \<Rightarrow> Inr last_speed))"

subsection \<open>zip_speed_curve_handle_event\<close>

definition set_last_direction ::
  "bool \<Rightarrow> int8_t \<Rightarrow> zip_speed_curve_data \<Rightarrow> zip_speed_curve_data" where
  "set_last_direction is_x_axis d dat =
     (if is_x_axis then dat\<lparr>last_x_direction := d\<rparr> else dat\<lparr>last_y_direction := d\<rparr>)"

definition get_last_direction :: "bool \<Rightarrow> zip_speed_curve_data \<Rightarrow> int8_t" where
  "get_last_direction is_x_axis dat =
     (if is_x_axis then last_x_direction dat else last_y_direction dat)"

text \<open>
  Lines 141 to 148: the product of the \<open>int32_t\<close> speed and the \<open>uint16_t\<close> period
  (promoted to \<open>int\<close>) is a 32-bit product; the division by the constant 1000 cannot trap.
\<close>

definition movement_of :: "zip_speed_curve_config \<Rightarrow> int32_t \<Rightarrow> int32_t" where
  "movement_of cfg speed_px_per_sec =
     (let movement = sdiv_word (speed_px_per_sec * ucast (trigger_period_ms cfg)) 1000
      in if movement = 0 \<and> 0 < sint speed_px_per_sec then 1 else movement)"

text \<open>The sign of the raw value: \<open>(value > 0) ? 1 : (value < 0) ? -1 : 0\<close>.\<close>

definition current_direction_of :: "int32_t \<Rightarrow> int8_t" where
  "current_direction_of val = (if 0 < sint val then 1 else if sint val < 0 then - 1 else 0)"

text \<open>
  The handler. \<open>dev->config\<close> and \<open>dev->data\<close> are the configuration and the runtime
  data; the parameters \<open>param1\<close>, \<open>param2\<close> and \<open>state\<close> are not used. The event and the
  data are modified in place: the outcome holds both as the call leaves them.
\<close>

definition zip_speed_curve_handle_event ::
  "zip_speed_curve_config \<Rightarrow> zip_speed_curve_data \<Rightarrow> uptime \<Rightarrow> input_event \<Rightarrow> fault + outcome" where
  "zip_speed_curve_handle_event cfg dat clk ev =
     (if ev_type ev \<noteq> type cfg \<or> \<not> code_matches cfg (ev_code ev) then
        Inr \<lparr>ret = 0, event = ev, data = dat, clock = clk, logged = []\<rparr>
      else
        let val = ev_value ev;
            is_x_axis = (ev_code ev = 0);
            current_direction = current_direction_of val
        in if val = 0 then
             let dat1 = set_last_direction is_x_axis 0 dat;
                 both = (last_x_direction dat1 = 0 \<and> last_y_direction dat1 = 0);
                 dat2 = (if both then dat1\<lparr>is_active := False\<rparr> else dat1)
             in Inr \<lparr>ret = 0, event = ev, data = dat2, clock = clk,
                     logged = (if both then [Movement_stopped] else [])\<rparr>
           else
             let changed = (get_last_direction is_x_axis dat \<noteq> 0
                            \<and> get_last_direction is_x_axis dat \<noteq> current_direction);
                 dat1 = (if changed then dat\<lparr>is_active := False\<rparr> else dat);
                 dat2 = set_last_direction is_x_axis current_direction dat1;
                 (dat3, clk1, started) =
                   (if \<not> is_active dat2 then
                      let (now, clk') = k_uptime_get clk
                      in (dat2\<lparr>start_time := now, is_active := True\<rparr>, clk',
                          [Movement_started now])
                    else (dat2, clk, []));
                 (current_time, clk2) = k_uptime_get clk1;
                 elapsed_ms = current_time - start_time dat3
             in case calculate_speed cfg elapsed_ms of
                  Inl f \<Rightarrow> Inl f
                | Inr speed_px_per_sec \<Rightarrow>
                    let movement = movement_of cfg speed_px_per_sec;
                        ev1 = ev\<lparr>ev_value := scast current_direction * movement\<rparr>
                    in Inr \<lparr>ret = 0, event = ev1, data = dat3, clock = clk2,
                            logged = (if changed then [Direction_changed] else []) @ started
                              @ [Speed_curve elapsed_ms speed_px_per_sec (ev_value ev1) val]\<rparr>)"

text \<open>
  The input pipeline calls the handler once per event, on the data and the clock that the
  call before left behind.
\<close>

fun handle_events ::
  "zip_speed_curve_config \<Rightarrow> zip_speed_curve_data \<Rightarrow> uptime \<Rightarrow> input_event list
     \<Rightarrow> fault + outcome list" where
  "handle_events cfg dat clk [] = Inr []"
| "handle_events cfg dat clk (ev # evs) =
     (case zip_speed_curve_handle_event cfg dat clk ev of
        Inl f \<Rightarrow> Inl f
      | Inr out \<Rightarrow>
          (case handle_events cfg (data out) (clock out) evs of
             Inl f \<Rightarrow> Inl f
           | Inr outs \<Rightarrow> Inr (out # outs)))"

subsection \<open>zip_speed_curve_init\<close>

definition zip_speed_curve_init ::
  "zip_speed_curve_config \<Rightarrow> zip_speed_curve_data \<Rightarrow> int \<times> zip_speed_curve_data" where
  "zip_speed_curve_init cfg dat =
     (0, dat\<lparr>is_active := False, start_time := 0,
             last_x_direction := 0, last_y_direction := 0\<rparr>)"

section \<open>Properties of curve tables\<close>

text \<open>
  Point \<open>i\<close> of the flattened table is \<open>(pts ! (i * 2), pts ! (i * 2 + 1))\<close>. All
  comparisons are between the signed values.
\<close>

definition point_time :: "int32_t list \<Rightarrow> nat \<Rightarrow> int" where
  "point_time pts i = sint (pts ! (i * 2))"

definition point_speed :: "int32_t list \<Rightarrow> nat \<Rightarrow> int" where
  "point_speed pts i = sint (pts ! (i * 2 + 1))"

definition strictly_increasing_times :: "int32_t list \<Rightarrow> bool" where
  "strictly_increasing_times pts =
     (\<forall>i \<in> {0 ..< num_points pts - 1}. point_time pts i < point_time pts (Suc i))"


text \<open>
  The 32-bit subtractions \<open>t1 - t0\<close> and \<open>s1 - s0\<close> of neighbouring points do not
  overflow (signed overflow is undefined in C): \<open>differences_fit\<close>. Tables of
  non-negative times and non-negative speeds, \<open>nonnegative_points\<close>, are of this kind.
\<close>

definition fits_int32 :: "int \<Rightarrow> bool" where
  "fits_int32 k = (- (2 ^ 31) \<le> k \<and> k < 2 ^ 31)"

definition fits_int64 :: "int \<Rightarrow> bool" where
  "fits_int64 k = (- (2 ^ 63) \<le> k \<and> k < 2 ^ 63)"

definition differences_fit :: "int32_t list \<Rightarrow> bool" where
  "differences_fit pts =
     (\<forall>i \<in> {0 ..< num_points pts - 1}.
        fits_int32 (point_time pts (Suc i) - point_time pts i)
        \<and> fits_int32 (point_speed pts (Suc i) - point_speed pts i))"

definition nonnegative_points :: "int32_t list \<Rightarrow> bool" where
  "nonnegative_points pts = (\<forall>k \<in> {0 ..< length pts}. 0 \<le> sint (pts ! k))"


section \<open>Example configurations\<close>

text \<open>The curve of the README, on both axes, with a trigger period of 16 ms.\<close>

definition readme_cfg :: zip_speed_curve_config where
  "readme_cfg = \<lparr>type = 2, codes = [0, 1], curve_points = [0, 50, 300, 200, 1000, 800],
     trigger_period_ms = 16, track_remainders = False\<rparr>"

text \<open>
  A constant 50 px/s with remainder tracking requested (the \<open>track-remainders\<close> property
  of the README's example).
\<close>

definition slow_cfg :: zip_speed_curve_config where
  "slow_cfg = \<lparr>type = 2, codes = [0, 1], curve_points = [0, 50, 1000, 50],
     trigger_period_ms = 16, track_remainders = True\<rparr>"


definition single_cfg :: zip_speed_curve_config where
  "single_cfg = \<lparr>type = 2, codes = [0, 1], curve_points = [100, 70],
     trigger_period_ms = 16, track_remainders = False\<rparr>"



text \<open>A third code besides X and Y, and a curve that is steep in its first millisecond.\<close>

definition three_code_cfg :: zip_speed_curve_config where
  "three_code_cfg = \<lparr>type = 2, codes = [0, 1, 8], curve_points = [0, 50, 300, 200, 1000, 800],
     trigger_period_ms = 16, track_remainders = False\<rparr>"

definition steep_cfg :: zip_speed_curve_config where
  "steep_cfg = \<lparr>type = 2, codes = [0, 1], curve_points = [0, 50, 1, 1000],
     trigger_period_ms = 16, track_remainders = False\<rparr>"

text \<open>No codes, times that go down, a zero trigger period.\<close>

definition malformed_cfg :: zip_speed_curve_config where
  "malformed_cfg = \<lparr>type = 2, codes = [], curve_points = [300, 200, 0, 50],
     trigger_period_ms = 0, track_remainders = False\<rparr>"

text \<open>
  The runtime data as \<open>zip_speed_curve_init\<close> leaves it, and the data while the X axis,
  or the Y axis, has been moving in the positive direction since time 0.
\<close>

definition idle_data :: zip_speed_curve_data where
  "idle_data = \<lparr>is_active = False, start_time = 0, x_start_time = 0, y_start_time = 0,
     last_x_direction = 0, last_y_direction = 0, x_remainder = 0, y_remainder = 0\<rparr>"

definition moving_x :: zip_speed_curve_data where
  "moving_x = idle_data\<lparr>is_active := True, last_x_direction := 1\<rparr>"

definition moving_y :: zip_speed_curve_data where
  "moving_y = idle_data\<lparr>is_active := True, last_y_direction := 1\<rparr>"

text \<open>A clock that returns the given readings in turn, and the last of them from then on.\<close>

definition readings :: "int64_t list \<Rightarrow> uptime" where
  "readings ts n = (if n < length ts then ts ! n else last ts)"

text \<open>A relative-motion event (\<open>INPUT_EV_REL = 2\<close>, \<open>INPUT_REL_X = 0\<close>, \<open>INPUT_REL_Y = 1\<close>).\<close>

definition rel_event :: "uint16_t \<Rightarrow> int32_t \<Rightarrow> input_event" where
  "rel_event c v = \<lparr>ev_type = 2, ev_code = c, ev_value = v\<rparr>"

section \<open>Supporting lemmas\<close>

subsection \<open>Truncating division and arithmetic without overflow\<close>




lemma fits_int32_sint: "fits_int32 (sint (w :: int32_t))"
  using sint_ge[of w] sint_lt[of w] by (simp add: fits_int32_def)




lemma sint_widen: "sint (scast (w :: int32_t) :: int64_t) = sint w"
  by (simp add: sint_up_scast is_up)

lemma sint_diff64:
  fixes a b :: int64_t
  assumes "fits_int64 (sint a - sint b)"
  shows "sint (a - b) = sint a - sint b"
  using assms by (simp add: sint_word_diff fits_int64_def signed_take_bit_int_eq_self)


lemma sint_mult64:
  fixes a b :: int64_t
  assumes "fits_int64 (sint a * sint b)"
  shows "sint (a * b) = sint a * sint b"
  using assms by (simp add: sint_word_mult fits_int64_def signed_take_bit_int_eq_self)



subsection \<open>One segment\<close>


subsection \<open>Curve tables\<close>

lemma times_strict_mono:
  assumes "strictly_increasing_times pts" and "i < j" and "j < num_points pts"
  shows "point_time pts i < point_time pts j"
  using assms(2,3)
proof (induction j)
  case 0
  then show ?case by simp
next
  case (Suc j)
  have step: "point_time pts j < point_time pts (Suc j)"
    using assms(1) Suc.prems(2) by (simp add: strictly_increasing_times_def)
  show ?case
  proof (cases "i = j")
    case True
    with step show ?thesis by simp
  next
    case False
    with Suc have "point_time pts i < point_time pts j" by simp
    with step show ?thesis by linarith
  qed
qed







subsection \<open>The segment search\<close>

text \<open>
  Started at a point that lies before the elapsed time, the loop returns from the first
  segment whose end is not before the elapsed time.
\<close>

lemma segment_search_first_enclosing:
  assumes "i < num_points pts"
    and "point_time pts i < sint e"
    and "sint e < point_time pts (num_points pts - 1)"
  shows "\<exists>j. i \<le> j \<and> j < num_points pts - 1 \<and> point_time pts j < sint e
            \<and> sint e \<le> point_time pts (Suc j)
            \<and> segment_search pts e i =
                Some (interpolate (pts ! (j * 2)) (pts ! (j * 2 + 1))
                        (pts ! ((j + 1) * 2)) (pts ! ((j + 1) * 2 + 1)) e)"
  using assms
proof (induction pts e i rule: segment_search.induct)
  case (1 pts e i)
  have less: "i < num_points pts - 1"
  proof (rule ccontr)
    assume "\<not> i < num_points pts - 1"
    with "1.prems"(1) have "i = num_points pts - 1" by simp
    with "1.prems"(2,3) show False by simp
  qed
  show ?case
  proof (cases "sint e \<le> point_time pts (Suc i)")
    case True
    with less "1.prems"(2) have
      "segment_search pts e i =
         Some (interpolate (pts ! (i * 2)) (pts ! (i * 2 + 1))
                 (pts ! ((i + 1) * 2)) (pts ! ((i + 1) * 2 + 1)) e)"
      by (subst segment_search.simps) (simp add: point_time_def Let_def)
    with less True "1.prems"(2) show ?thesis by blast
  next
    case False
    then have next_lt: "point_time pts (Suc i) < sint e" by simp
    have step: "segment_search pts e i = segment_search pts e (i + 1)"
      using less False by (subst segment_search.simps) (simp add: point_time_def Let_def)
    have "\<exists>j. i + 1 \<le> j \<and> j < num_points pts - 1 \<and> point_time pts j < sint e
            \<and> sint e \<le> point_time pts (Suc j)
            \<and> segment_search pts e (i + 1) =
                Some (interpolate (pts ! (j * 2)) (pts ! (j * 2 + 1))
                        (pts ! ((j + 1) * 2)) (pts ! ((j + 1) * 2 + 1)) e)"
    proof (rule "1.IH"[OF less refl refl refl refl])
      show "\<not> (sint (pts ! (i * 2)) \<le> sint e \<and> sint e \<le> sint (pts ! ((i + 1) * 2)))"
        using False by (simp add: point_time_def)
      show "i + 1 < num_points pts" using less by simp
      show "point_time pts (i + 1) < sint e" using next_lt by simp
      show "sint e < point_time pts (num_points pts - 1)" by fact
    qed
    then show ?thesis using step by (metis Suc_leD Suc_eq_plus1)
  qed
qed

lemma calculate_speed_low:
  assumes "0 < num_points (curve_points cfg)"
    and "sint e \<le> point_time (curve_points cfg) 0"
  shows "calculate_speed cfg e = Inr (curve_points cfg ! 1)"
  using assms by (simp add: calculate_speed_def point_time_def)




text \<open>
  The division of the loop never traps: the segment it returns from starts before the
  elapsed time, so its two times differ, and the 64-bit product stays above the least
  value.
\<close>

lemma wide_product_fits:
  fixes a x :: int
  assumes "fits_int32 a" and "0 \<le> x" and "x < 2 ^ 32"
  shows "\<bar>a * x\<bar> < 2 ^ 63"
proof -
  have "\<bar>a * x\<bar> = \<bar>a\<bar> * x" using assms by (simp add: abs_mult)
  also have "\<dots> \<le> 2 ^ 31 * x"
    using assms by (intro mult_right_mono) (auto simp: fits_int32_def)
  also have "\<dots> < 2 ^ 31 * 2 ^ 32" using assms by simp
  finally show ?thesis by simp
qed

lemma interpolate_returns:
  assumes lo: "sint t0 < sint e" and hi: "sint e \<le> sint t1"
  shows "\<exists>v. interpolate t0 s0 t1 s1 e = Inr v"
proof -
  define td :: int64_t where "td = scast (t1 - t0)"
  define sd :: int64_t where "sd = scast (s1 - s0)"
  define es :: int64_t where "es = e - scast t0"
  have "t1 \<noteq> t0" using lo hi by auto
  then have "sint (t1 - t0) \<noteq> 0" by (simp add: signed_eq_0_iff)
  then have "sint td \<noteq> 0" by (simp add: td_def sint_widen)
  then have td: "td \<noteq> 0" by auto
  have x: "0 \<le> sint e - sint t0" "sint e - sint t0 < 2 ^ 32"
    using lo hi fits_int32_sint[of t0] fits_int32_sint[of t1] by (simp_all add: fits_int32_def)
  then have "fits_int64 (sint e - sint t0)" by (simp add: fits_int64_def)
  then have es: "sint es = sint e - sint t0"
    by (simp add: es_def sint_diff64 sint_widen)
  have sd: "fits_int32 (sint sd)"
    by (simp add: sd_def sint_widen fits_int32_sint)
  have small: "\<bar>sint sd * sint es\<bar> < 2 ^ 63"
    using sd x unfolding es by (rule wide_product_fits)
  then have "fits_int64 (sint sd * sint es)" by (simp add: fits_int64_def abs_less_iff)
  then have "sint (sd * es) = sint sd * sint es" by (rule sint_mult64)
  with small have "sint (sd * es) \<noteq> - (2 ^ 63)" by simp
  with td have "c_sdiv (sd * es) td = Inr (sdiv_word (sd * es) td)"
    by (simp add: c_sdiv_def)
  then show ?thesis
    by (simp add: interpolate_def Let_def td_def sd_def es_def)
qed

lemma calculate_speed_returns: "\<exists>v. calculate_speed cfg e = Inr v"
proof -
  let ?pts = "curve_points cfg"
  let ?n = "num_points ?pts"
  consider (none) "?n = 0"
    | (low) "0 < ?n" "sint e \<le> point_time ?pts 0"
    | (high) "0 < ?n" "point_time ?pts 0 < sint e" "point_time ?pts (?n - 1) \<le> sint e"
    | (inside) "0 < ?n" "point_time ?pts 0 < sint e" "sint e < point_time ?pts (?n - 1)"
    by linarith
  then show ?thesis
  proof cases
    case none
    then show ?thesis by (simp add: calculate_speed_def)
  next
    case low
    then show ?thesis by (simp add: calculate_speed_def point_time_def)
  next
    case high
    then show ?thesis by (simp add: calculate_speed_def point_time_def Let_def)
  next
    case inside
    from segment_search_first_enclosing[OF inside]
    obtain j where j: "point_time ?pts j < sint e" "sint e \<le> point_time ?pts (Suc j)"
      and found: "segment_search ?pts e 0 =
                Some (interpolate (?pts ! (j * 2)) (?pts ! (j * 2 + 1))
                        (?pts ! ((j + 1) * 2)) (?pts ! ((j + 1) * 2 + 1)) e)"
      by blast
    from j have "\<exists>v. interpolate (?pts ! (j * 2)) (?pts ! (j * 2 + 1))
                        (?pts ! ((j + 1) * 2)) (?pts ! ((j + 1) * 2 + 1)) e = Inr v"
      by (intro interpolate_returns) (simp_all add: point_time_def)
    with inside found show ?thesis
      by (simp add: calculate_speed_def point_time_def Let_def)
  qed
qed

lemma nonnegative_points_fit:
  assumes "nonnegative_points pts"
  shows "differences_fit pts"
proof -
  have range: "0 \<le> sint (pts ! k) \<and> sint (pts ! k) < 2 ^ 31" if "k < length pts" for k
    using assms that sint_lt[of "pts ! k"] by (simp add: nonnegative_points_def)
  have "fits_int32 (point_time pts (Suc i) - point_time pts i)
      \<and> fits_int32 (point_speed pts (Suc i) - point_speed pts i)"
    if "i < num_points pts - 1" for i
  proof -
    from that have "Suc i * 2 + 1 < length pts"
      by (simp add: num_points_def)
    then have "i * 2 < length pts" "i * 2 + 1 < length pts" "Suc i * 2 < length pts"
      "Suc i * 2 + 1 < length pts"
      by simp_all
    from this[THEN range] show ?thesis
      by (simp add: fits_int32_def point_time_def point_speed_def)
  qed
  then show ?thesis by (simp add: differences_fit_def)
qed

subsection \<open>The handler\<close>

lemma code_in_set: "code_in cs c \<longleftrightarrow> c \<in> set cs"
  by (induction cs) auto

lemma movement_of_nonzero: "0 < sint s \<Longrightarrow> movement_of cfg s \<noteq> 0"
  by (simp add: movement_of_def Let_def)

lemma scast_direction:
  "v \<noteq> 0 \<Longrightarrow>
     (scast (current_direction_of v) :: int32_t) = 1
     \<or> (scast (current_direction_of v) :: int32_t) = - 1"
  by (auto simp: current_direction_of_def signed_eq_0_iff)

lemma directed_nonzero:
  "v \<noteq> 0 \<Longrightarrow> m \<noteq> 0 \<Longrightarrow> (scast (current_direction_of v) :: int32_t) * m \<noteq> 0"
  using scast_direction[of v] by auto

text \<open>
  A matched nonzero event that finds the timer stopped, or stops it by reversing the
  direction of its slot (\<open>last_x_direction\<close> for code 0, \<open>last_y_direction\<close> for every
  other code), reads the clock twice: once for the new start time, once for the current
  time.
\<close>

lemma handle_event_restart_slots:
  assumes "ev_type ev = type cfg" and "ev_code ev \<in> set (codes cfg)"
    and "ev_value ev \<noteq> 0"
    and "ev_code ev = 0 \<and> last_x_direction dat \<noteq> 0
           \<and> last_x_direction dat \<noteq> (if 0 < sint (ev_value ev) then 1 else - 1)
         \<or> ev_code ev \<noteq> 0 \<and> last_y_direction dat \<noteq> 0
           \<and> last_y_direction dat \<noteq> (if 0 < sint (ev_value ev) then 1 else - 1)
         \<or> \<not> is_active dat"
  shows "\<exists>out s. zip_speed_curve_handle_event cfg dat clk ev = Inr out
           \<and> calculate_speed cfg (clk 1 - clk 0) = Inr s
           \<and> start_time (data out) = clk 0 \<and> is_active (data out)
           \<and> (if ev_code ev = 0 then last_x_direction (data out)
               else last_y_direction (data out))
               = (if 0 < sint (ev_value ev) then 1 else - 1)
           \<and> last (logged out) =
               Speed_curve (clk 1 - clk 0) s (ev_value (event out)) (ev_value ev)
           \<and> ev_value (event out) =
               (if 0 < sint (ev_value ev) then movement_of cfg s else - movement_of cfg s)"
proof -
  obtain s where s: "calculate_speed cfg (clk 1 - clk 0) = Inr s"
    using calculate_speed_returns by blast
  have sign: "sint (ev_value ev) \<noteq> 0"
    using assms(3) by (simp add: signed_eq_0_iff)
  show ?thesis
    using assms s sign
    by (auto simp: zip_speed_curve_handle_event_def code_matches_def code_in_set Let_def
          k_uptime_get_def set_last_direction_def get_last_direction_def
          current_direction_of_def)
qed

lemma handle_event_stop_slots:
  assumes "ev_type ev = type cfg" and "ev_code ev \<in> set (codes cfg)"
    and "ev_value ev = 0"
    and "ev_code ev = 0 \<and> last_y_direction dat = 0
         \<or> ev_code ev \<noteq> 0 \<and> last_x_direction dat = 0"
  shows "\<exists>out. zip_speed_curve_handle_event cfg dat clk ev = Inr out
           \<and> event out = ev \<and> \<not> is_active (data out)
           \<and> last_x_direction (data out) = 0 \<and> last_y_direction (data out) = 0"
  using assms
  by (auto simp: zip_speed_curve_handle_event_def code_matches_def code_in_set Let_def
        set_last_direction_def get_last_direction_def)

lemma handle_event_ignores_track_remainders:
  "zip_speed_curve_handle_event (cfg\<lparr>track_remainders := b\<rparr>) dat clk ev
     = zip_speed_curve_handle_event cfg dat clk ev"
proof -
  have a: "calculate_speed (cfg\<lparr>track_remainders := b\<rparr>) = calculate_speed cfg"
    by (rule ext) (simp add: calculate_speed_def)
  have b: "movement_of (cfg\<lparr>track_remainders := b\<rparr>) = movement_of cfg"
    by (rule ext) (simp add: movement_of_def)
  show ?thesis
    unfolding zip_speed_curve_handle_event_def code_matches_def a b by simp
qed

lemma handle_event_keeps_remainders:
  "zip_speed_curve_handle_event cfg dat clk ev = Inr out \<Longrightarrow>
     x_remainder (data out) = x_remainder dat \<and> y_remainder (data out) = y_remainder dat"
  by (auto simp: zip_speed_curve_handle_event_def Let_def set_last_direction_def k_uptime_get_def
      split: if_splits sum.splits prod.splits)

text \<open>The handler returns on every input.\<close>

lemma handle_event_returns: "\<exists>out. zip_speed_curve_handle_event cfg dat clk ev = Inr out"
proof -
  have "calculate_speed cfg e \<noteq> Inl f" for e f
    using calculate_speed_returns[of cfg e] by auto
  then show ?thesis
    by (auto simp: zip_speed_curve_handle_event_def Let_def split: sum.splits prod.splits)
qed

subsection \<open>Evaluation of the examples\<close>

lemmas handler_defs =
  zip_speed_curve_handle_event_def code_matches_def set_last_direction_def
  get_last_direction_def current_direction_of_def k_uptime_get_def movement_of_def
  calculate_speed_def num_points_def interpolate_def c_sdiv_def sdiv_word_def
  signed_divide_int_def segment_search.simps

lemmas example_defs =
  readme_cfg_def idle_data_def moving_x_def readings_def rel_event_def

lemma readme_curve_increasing: "strictly_increasing_times (curve_points readme_cfg)"
  by code_simp





lemma single_curve_increasing: "strictly_increasing_times (curve_points single_cfg)"
  by code_simp

section \<open>The claims\<close>

subsection \<open>C1: a stop and the timing of the next event\<close>

text \<open>
  C1 says: after a zero-value event on an axis, the next nonzero event on that axis is
  computed with an elapsed time of 0 and receives the speed of the first point, whatever
  the other axis does. The handler keeps one activity flag and one start time for both
  axes, and a zero-value event stops the timer only when the last directions of both
  axes are 0. From the initial state, X starts at time 0, Y starts at time 16, X stops,
  and X starts again at time 500: the last event is computed at an elapsed time of 500
  and a speed of 371, not at 0 and 50.
\<close>

theorem stop_while_other_axis_moves_counterexample:
  "map_sum id (map logged)
     (handle_events readme_cfg idle_data (readings [0, 0, 16, 500])
        [rel_event 0 5, rel_event 1 5, rel_event 0 0, rel_event 0 5])
     = Inr [[Movement_started 0, Speed_curve 0 50 1 5], [Speed_curve 16 58 1 5], [],
            [Speed_curve 500 371 5 5]]
   \<and> (500 :: int64_t) \<noteq> 0 \<and> (371 :: int32_t) \<noteq> curve_points readme_cfg ! 1"
  by (simp add: handler_defs example_defs Let_def)

text \<open>
  C1 as amended: a matched zero-value event with code 0, processed while
  \<open>last_y_direction\<close> is 0, or with another code, processed while \<open>last_x_direction\<close> is
  0, passes through unchanged and clears the activity flag. The next matched nonzero
  event, processed on that data, restarts the timer: the start time becomes the first
  reading of the clock in that call and the elapsed time is the second reading minus the
  first. Its speed is what \<open>calculate_speed\<close> returns for that elapsed time, which is the
  speed of the first point whenever the table has a point and that elapsed time is at
  most the time of the first point.
\<close>

theorem full_stop_resets_timing:
  assumes "ev_type ev_stop = type cfg" and "ev_code ev_stop \<in> set (codes cfg)"
    and "ev_value ev_stop = 0"
    and "ev_code ev_stop = 0 \<and> last_y_direction dat = 0
         \<or> ev_code ev_stop \<noteq> 0 \<and> last_x_direction dat = 0"
    and "ev_type ev_next = type cfg" and "ev_code ev_next \<in> set (codes cfg)"
    and "ev_value ev_next \<noteq> 0"
  shows "\<exists>out_stop out_next s.
           zip_speed_curve_handle_event cfg dat clk_stop ev_stop = Inr out_stop
           \<and> event out_stop = ev_stop
           \<and> \<not> is_active (data out_stop)
           \<and> zip_speed_curve_handle_event cfg (data out_stop) clk_next ev_next = Inr out_next
           \<and> start_time (data out_next) = clk_next 0
           \<and> calculate_speed cfg (clk_next 1 - clk_next 0) = Inr s
           \<and> last (logged out_next) =
               Speed_curve (clk_next 1 - clk_next 0) s
                 (ev_value (event out_next)) (ev_value ev_next)
           \<and> (0 < num_points (curve_points cfg)
                \<and> sint (clk_next 1 - clk_next 0) \<le> point_time (curve_points cfg) 0
               \<longrightarrow> s = curve_points cfg ! 1)"
proof -
  from handle_event_stop_slots[OF assms(1-4), of clk_stop]
  obtain out_stop where
    out_stop: "zip_speed_curve_handle_event cfg dat clk_stop ev_stop = Inr out_stop"
      "event out_stop = ev_stop" "\<not> is_active (data out_stop)"
    by blast
  from handle_event_restart_slots[OF assms(5-7), of "data out_stop" clk_next] out_stop(3)
  obtain out_next s where
    nxt: "zip_speed_curve_handle_event cfg (data out_stop) clk_next ev_next = Inr out_next"
      "calculate_speed cfg (clk_next 1 - clk_next 0) = Inr s"
      "start_time (data out_next) = clk_next 0"
      "last (logged out_next) =
         Speed_curve (clk_next 1 - clk_next 0) s
           (ev_value (event out_next)) (ev_value ev_next)"
    by blast
  have "s = curve_points cfg ! 1"
    if "0 < num_points (curve_points cfg)
          \<and> sint (clk_next 1 - clk_next 0) \<le> point_time (curve_points cfg) 0"
    using calculate_speed_low[of cfg "clk_next 1 - clk_next 0"] that nxt(2) by simp
  with out_stop nxt show ?thesis by blast
qed

theorem full_stop_resets_timing_witness:
  "(\<exists>out_stop out_next.
      zip_speed_curve_handle_event readme_cfg moving_x (readings [484]) (rel_event 0 0)
        = Inr out_stop
      \<and> zip_speed_curve_handle_event readme_cfg (data out_stop) (readings [500, 500])
          (rel_event 0 5) = Inr out_next
      \<and> start_time (data out_next) = 500
      \<and> last (logged out_next) = Speed_curve 0 50 (ev_value (event out_next)) 5)
   \<and> (\<exists>out_stop out_next s.
      zip_speed_curve_handle_event readme_cfg moving_y (readings [484]) (rel_event 1 0)
        = Inr out_stop
      \<and> zip_speed_curve_handle_event readme_cfg (data out_stop) (readings [500, 503])
          (rel_event 1 (- 5)) = Inr out_next
      \<and> start_time (data out_next) = 500
      \<and> calculate_speed readme_cfg 3 = Inr s
      \<and> last (logged out_next) = Speed_curve 3 s (ev_value (event out_next)) (- 5))"
  using
    full_stop_resets_timing [where cfg = readme_cfg and dat = moving_x
      and ev_stop = "rel_event 0 0" and clk_stop = "readings [484]"
      and ev_next = "rel_event 0 5" and clk_next = "readings [500, 500]"]
    full_stop_resets_timing [where cfg = readme_cfg and dat = moving_y
      and ev_stop = "rel_event 1 0" and clk_stop = "readings [484]"
      and ev_next = "rel_event 1 (- 5)" and clk_next = "readings [500, 503]"]
  by (auto simp add: example_defs moving_y_def num_points_def point_time_def)

subsection \<open>C2: sub-pixel remainders\<close>

text \<open>
  C2 says: with \<open>track_remainders\<close> enabled the emitted delta is the truncation of
  \<open>speed * trigger_period_ms / 1000\<close> plus the remainder carried on the axis, so that
  the deltas of N events at a constant speed add up to \<open>speed * trigger_period_ms / 1000 * N\<close>
  within 1. The header declares the option and the two remainders and the README
  documents them, but the handler never reads \<open>track_remainders\<close> and never touches a
  remainder (the two lemmas above). At a constant 50 px/s and a period of 16 ms, 0.8 px
  per event, ten events emit 1 each, 10 in all, and both remainders stay as they were,
  where the claim gives 0 for the first event and 8 in all.
\<close>

theorem remainders_not_tracked:
  "track_remainders slow_cfg
   \<and> map_sum id (map (\<lambda>out. (sint (ev_value (event out)), x_remainder (data out))))
       (handle_events slow_cfg idle_data
          (readings [0, 0, 16, 32, 48, 64, 80, 96, 112, 128, 144])
          (replicate 10 (rel_event 0 1)))
     = Inr (replicate 10 (1, 0))"
  by code_simp

subsection \<open>C3: construction\<close>

text \<open>
  C3 says: construction fails with InvalidConfig for a configuration with non-monotonic
  curve points, an empty code set or a non-positive trigger period.
  \<open>zip_speed_curve_init\<close> does not look at the configuration: for a configuration with
  all three defects it returns 0.
\<close>

theorem init_accepts_malformed_config_counterexample:
  "codes malformed_cfg = []
   \<and> trigger_period_ms malformed_cfg = 0
   \<and> \<not> strictly_increasing_times (curve_points malformed_cfg)
   \<and> fst (zip_speed_curve_init malformed_cfg moving_x) = 0"
  by code_simp

text \<open>
  C3 as amended: \<open>zip_speed_curve_init\<close> validates nothing; for every configuration it
  returns 0 and leaves the timer stopped, the start time 0 and both last directions 0.
\<close>

theorem init_always_succeeds:
  "fst (zip_speed_curve_init cfg dat) = 0
   \<and> \<not> is_active (snd (zip_speed_curve_init cfg dat))
   \<and> start_time (snd (zip_speed_curve_init cfg dat)) = 0
   \<and> last_x_direction (snd (zip_speed_curve_init cfg dat)) = 0
   \<and> last_y_direction (snd (zip_speed_curve_init cfg dat)) = 0"
  by (simp add: zip_speed_curve_init_def)

subsection \<open>C4: linear interpolation\<close>




subsection \<open>C5: clamping\<close>

text \<open>
  C5: for a table with at least one point, \<open>calculate_speed\<close> returns the speed of the
  first point for every elapsed time up to the time of the first point, the speed of the
  last point for every elapsed time from the time of the last point on (the times of a
  curve table being strictly increasing), and the speed of the only point of a
  single-point table for every elapsed time.
\<close>

theorem calculate_speed_clamps:
  assumes "0 < num_points (curve_points cfg)"
  shows "(sint e \<le> point_time (curve_points cfg) 0 \<longrightarrow>
            calculate_speed cfg e = Inr (curve_points cfg ! 1))
       \<and> (strictly_increasing_times (curve_points cfg) \<and>
            point_time (curve_points cfg) (num_points (curve_points cfg) - 1) \<le> sint e \<longrightarrow>
            calculate_speed cfg e =
              Inr (curve_points cfg ! ((num_points (curve_points cfg) - 1) * 2 + 1)))
       \<and> (num_points (curve_points cfg) = 1 \<longrightarrow>
            calculate_speed cfg e = Inr (curve_points cfg ! 1))"
proof (intro conjI impI)
  assume "sint e \<le> point_time (curve_points cfg) 0"
  with assms show "calculate_speed cfg e = Inr (curve_points cfg ! 1)"
    by (simp add: calculate_speed_def point_time_def)
next
  assume "num_points (curve_points cfg) = 1"
  then show "calculate_speed cfg e = Inr (curve_points cfg ! 1)"
    by (auto simp: calculate_speed_def Let_def)
next
  let ?pts = "curve_points cfg"
  let ?n = "num_points ?pts"
  assume a: "strictly_increasing_times ?pts \<and> point_time ?pts (?n - 1) \<le> sint e"
  show "calculate_speed cfg e = Inr (?pts ! ((?n - 1) * 2 + 1))"
  proof (cases "sint e \<le> point_time ?pts 0")
    case False
    with assms a show ?thesis
      by (simp add: calculate_speed_def point_time_def Let_def)
  next
    case True
    have "?n - 1 = 0"
    proof (rule ccontr)
      assume "?n - 1 \<noteq> 0"
      then have "point_time ?pts 0 < point_time ?pts (?n - 1)"
        using a assms by (intro times_strict_mono) auto
      with True a show False by linarith
    qed
    with assms True show ?thesis
      by (simp add: calculate_speed_def point_time_def Let_def)
  qed
qed

theorem calculate_speed_clamps_witness:
  "calculate_speed readme_cfg (- 5) = Inr 50
   \<and> calculate_speed readme_cfg 2000 = Inr 800
   \<and> calculate_speed single_cfg 12345 = Inr 70"
  using
    calculate_speed_clamps [of readme_cfg "- 5"]
    calculate_speed_clamps [of readme_cfg 2000]
    calculate_speed_clamps [of single_cfg 12345]
    readme_curve_increasing single_curve_increasing
  by (simp add: point_time_def num_points_def readme_cfg_def single_cfg_def)

subsection \<open>C6: monotonicity\<close>




subsection \<open>C7: minimum motion\<close>

text \<open>
  C7: every matched nonzero event that the handler shapes is computed from an elapsed time
  and the speed that \<open>calculate_speed\<close> returns for it (the handler logs both, with the
  emitted and the original value), and whenever that speed is positive the emitted value
  is not 0: its magnitude is at least 1. The handler does so whatever \<open>track_remainders\<close>
  is, in particular when it is disabled.
\<close>

theorem minimum_motion:
  assumes "ev_type ev = type cfg" and "ev_code ev \<in> set (codes cfg)"
    and "ev_value ev \<noteq> 0"
    and "zip_speed_curve_handle_event cfg dat clk ev = Inr out"
  shows "\<exists>e s. last (logged out) = Speed_curve e s (ev_value (event out)) (ev_value ev)
           \<and> calculate_speed cfg e = Inr s
           \<and> (0 < sint s \<longrightarrow> ev_value (event out) \<noteq> 0 \<and> 1 \<le> \<bar>sint (ev_value (event out))\<bar>)"
proof -
  have nz: "w \<noteq> 0 \<Longrightarrow> 1 \<le> \<bar>sint w\<bar>" for w :: int32_t
    using signed_eq_0_iff[of w, where ?'a = int] by linarith
  show ?thesis
    using assms
    by (auto simp: zip_speed_curve_handle_event_def code_matches_def code_in_set Let_def
          k_uptime_get_def directed_nonzero movement_of_nonzero nz
        split: if_splits sum.splits prod.splits)
qed

theorem minimum_motion_witness:
  "\<exists>out. zip_speed_curve_handle_event readme_cfg idle_data (readings [0]) (rel_event 0 5) = Inr out
      \<and> last (logged out) = Speed_curve 0 50 1 5
      \<and> calculate_speed readme_cfg 0 = Inr 50
      \<and> 0 < sint (50 :: int32_t)
      \<and> 1 \<le> \<bar>sint (ev_value (event out))\<bar>"
proof -
  have "\<exists>out. zip_speed_curve_handle_event readme_cfg idle_data (readings [0]) (rel_event 0 5)
          = Inr out \<and> last (logged out) = Speed_curve 0 50 1 5"
    by (simp add: handler_defs example_defs Let_def)
  then obtain out where
    out: "zip_speed_curve_handle_event readme_cfg idle_data (readings [0]) (rel_event 0 5) = Inr out"
    and msg: "last (logged out) = Speed_curve 0 50 1 5"
    by blast
  have speed: "calculate_speed readme_cfg 0 = Inr 50"
    by (simp add: handler_defs example_defs)
  from minimum_motion [OF _ _ _ out] msg
  have "1 \<le> \<bar>sint (ev_value (event out))\<bar>"
    by (auto simp: readme_cfg_def rel_event_def)
  with out msg speed show ?thesis by auto
qed

subsection \<open>C8: direction reversal\<close>

text \<open>
  C8 says: on every axis, a nonzero event whose sign differs from the nonzero last
  direction of the axis is computed at an elapsed time of about 0 and receives the speed
  of the first point. The handler keeps two last directions, one for code 0 and one that
  all other codes share: with the codes 0, 1 and 8 configured, +5 on code 8, -5 on code 1
  and -5 on code 8 leave the third event at the accumulated elapsed time 484. And the
  elapsed time of a reversal is the time between two readings of the clock: where the
  clock ticks in between, on a curve that rises from 50 to 1000 in its first
  millisecond, the reversing event is computed at the elapsed time 1 and the speed 1000.
\<close>

theorem reversal_not_reset_counterexample:
  "map_sum id (map logged)
     (handle_events three_code_cfg idle_data (readings [0, 0, 16, 16, 500])
        [rel_event 8 5, rel_event 1 (- 5), rel_event 8 (- 5)])
     = Inr [[Movement_started 0, Speed_curve 0 50 1 5],
            [Direction_changed, Movement_started 16, Speed_curve 0 50 (- 1) (- 5)],
            [Speed_curve 484 357 (- 5) (- 5)]]
   \<and> map_sum id (map logged)
     (handle_events steep_cfg idle_data (readings [0, 0, 16, 32, 33])
        [rel_event 0 5, rel_event 0 5, rel_event 0 (- 5)])
     = Inr [[Movement_started 0, Speed_curve 0 50 1 5], [Speed_curve 16 1000 16 5],
            [Direction_changed, Movement_started 32, Speed_curve 1 1000 (- 16) (- 5)]]
   \<and> (1000 :: int32_t) \<noteq> curve_points steep_cfg ! 1"
  by (simp add: handler_defs example_defs three_code_cfg_def steep_cfg_def Let_def)

text \<open>
  C8 as amended: a matched nonzero event whose sign differs from the nonzero last
  direction of its slot (\<open>last_x_direction\<close> for code 0, \<open>last_y_direction\<close> for every
  other code) restarts the timer in the same call: the start time becomes the first
  reading of the clock in that call and the elapsed time is the second reading minus the
  first. Its speed is what \<open>calculate_speed\<close> returns for that elapsed time, which is the
  speed of the first point whenever the table has a point and that elapsed time is at
  most the time of the first point. For the values +5, +5, -5 on code 0, and -5, -5, +5
  on code 1, at the times 0, 16 and 32 the third event is computed at an elapsed time of
  0 and the speed 50.
\<close>

theorem reversal_resets_timing:
  "(\<forall>cfg dat clk ev.
      ev_type ev = type cfg \<and> ev_code ev \<in> set (codes cfg) \<and> ev_value ev \<noteq> 0
      \<and> (ev_code ev = 0 \<and> last_x_direction dat \<noteq> 0
            \<and> last_x_direction dat \<noteq> (if 0 < sint (ev_value ev) then 1 else - 1)
          \<or> ev_code ev \<noteq> 0 \<and> last_y_direction dat \<noteq> 0
            \<and> last_y_direction dat \<noteq> (if 0 < sint (ev_value ev) then 1 else - 1))
      \<longrightarrow> (\<exists>out s. zip_speed_curve_handle_event cfg dat clk ev = Inr out
             \<and> start_time (data out) = clk 0
             \<and> calculate_speed cfg (clk 1 - clk 0) = Inr s
             \<and> last (logged out) =
                 Speed_curve (clk 1 - clk 0) s (ev_value (event out)) (ev_value ev)
             \<and> (0 < num_points (curve_points cfg)
                  \<and> sint (clk 1 - clk 0) \<le> point_time (curve_points cfg) 0
                 \<longrightarrow> s = curve_points cfg ! 1)))
   \<and> map_sum id (map logged)
       (handle_events readme_cfg idle_data (readings [0, 0, 16, 32, 32])
          [rel_event 0 5, rel_event 0 5, rel_event 0 (- 5)])
     = Inr [[Movement_started 0, Speed_curve 0 50 1 5], [Speed_curve 16 58 1 5],
            [Direction_changed, Movement_started 32, Speed_curve 0 50 (- 1) (- 5)]]
   \<and> map_sum id (map logged)
       (handle_events readme_cfg idle_data (readings [0, 0, 16, 32, 32])
          [rel_event 1 (- 5), rel_event 1 (- 5), rel_event 1 5])
     = Inr [[Movement_started 0, Speed_curve 0 50 (- 1) (- 5)], [Speed_curve 16 58 (- 1) (- 5)],
            [Direction_changed, Movement_started 32, Speed_curve 0 50 1 5]]"
proof (intro conjI allI impI)
  fix cfg :: zip_speed_curve_config and dat :: zip_speed_curve_data
    and clk :: uptime and ev :: input_event
  assume a: "ev_type ev = type cfg \<and> ev_code ev \<in> set (codes cfg) \<and> ev_value ev \<noteq> 0
      \<and> (ev_code ev = 0 \<and> last_x_direction dat \<noteq> 0
            \<and> last_x_direction dat \<noteq> (if 0 < sint (ev_value ev) then 1 else - 1)
          \<or> ev_code ev \<noteq> 0 \<and> last_y_direction dat \<noteq> 0
            \<and> last_y_direction dat \<noteq> (if 0 < sint (ev_value ev) then 1 else - 1))"
  then have "ev_type ev = type cfg" "ev_code ev \<in> set (codes cfg)" "ev_value ev \<noteq> 0"
    by simp_all
  from handle_event_restart_slots[OF this, of dat clk] a
  obtain out s where
    r: "zip_speed_curve_handle_event cfg dat clk ev = Inr out"
      "calculate_speed cfg (clk 1 - clk 0) = Inr s"
      "start_time (data out) = clk 0"
      "last (logged out) = Speed_curve (clk 1 - clk 0) s (ev_value (event out)) (ev_value ev)"
    by blast
  have "s = curve_points cfg ! 1"
    if "0 < num_points (curve_points cfg)
          \<and> sint (clk 1 - clk 0) \<le> point_time (curve_points cfg) 0"
    using calculate_speed_low[of cfg "clk 1 - clk 0"] that r(2) by simp
  with r show "\<exists>out s. zip_speed_curve_handle_event cfg dat clk ev = Inr out
             \<and> start_time (data out) = clk 0
             \<and> calculate_speed cfg (clk 1 - clk 0) = Inr s
             \<and> last (logged out) =
                 Speed_curve (clk 1 - clk 0) s (ev_value (event out)) (ev_value ev)
             \<and> (0 < num_points (curve_points cfg)
                  \<and> sint (clk 1 - clk 0) \<le> point_time (curve_points cfg) 0
                 \<longrightarrow> s = curve_points cfg ! 1)"
    by blast
qed (simp_all add: handler_defs example_defs Let_def)

theorem reversal_resets_timing_witness:
  "(\<exists>out. zip_speed_curve_handle_event readme_cfg moving_x (readings [32, 32])
        (rel_event 0 (- 5)) = Inr out
      \<and> start_time (data out) = 32
      \<and> last (logged out) = Speed_curve 0 50 (ev_value (event out)) (- 5))
   \<and> (\<exists>out s. zip_speed_curve_handle_event steep_cfg moving_y (readings [32, 33])
        (rel_event 1 (- 5)) = Inr out
      \<and> start_time (data out) = 32
      \<and> calculate_speed steep_cfg 1 = Inr s
      \<and> last (logged out) = Speed_curve 1 s (ev_value (event out)) (- 5))"
  using
    reversal_resets_timing [THEN conjunct1, rule_format,
      where cfg = readme_cfg and dat = moving_x and clk = "readings [32, 32]"
        and ev = "rel_event 0 (- 5)"]
    reversal_resets_timing [THEN conjunct1, rule_format,
      where cfg = steep_cfg and dat = moving_y and clk = "readings [32, 33]"
        and ev = "rel_event 1 (- 5)"]
  by (auto simp add: example_defs moving_y_def steep_cfg_def num_points_def point_time_def)

subsection \<open>C9: unmatched events\<close>

text \<open>
  C9: an event whose type is not the configured type, or whose code is not among the
  configured codes, is returned as it came, and the runtime data (activity flag, start
  times, last directions, remainders), the clock and the log are left as they were.
\<close>

theorem unmatched_event_passes_through:
  assumes "ev_type ev \<noteq> type cfg \<or> ev_code ev \<notin> set (codes cfg)"
  shows "zip_speed_curve_handle_event cfg dat clk ev
           = Inr \<lparr>ret = 0, event = ev, data = dat, clock = clk, logged = []\<rparr>"
  using assms
  by (auto simp: zip_speed_curve_handle_event_def code_matches_def code_in_set)

theorem unmatched_event_passes_through_witness:
  "zip_speed_curve_handle_event readme_cfg moving_x (readings [7])
       \<lparr>ev_type = 4, ev_code = 0, ev_value = 5\<rparr>
     = Inr \<lparr>ret = 0, event = \<lparr>ev_type = 4, ev_code = 0, ev_value = 5\<rparr>, data = moving_x,
            clock = readings [7], logged = []\<rparr>
   \<and> zip_speed_curve_handle_event readme_cfg moving_x (readings [7]) (rel_event 8 5)
     = Inr \<lparr>ret = 0, event = rel_event 8 5, data = moving_x, clock = readings [7],
            logged = []\<rparr>"
  using
    unmatched_event_passes_through [of "\<lparr>ev_type = 4, ev_code = 0, ev_value = 5\<rparr>"
      readme_cfg moving_x "readings [7]"]
    unmatched_event_passes_through [of "rel_event 8 5" readme_cfg moving_x "readings [7]"]
  by (simp add: readme_cfg_def rel_event_def)

subsection \<open>C10: the fallback after the loop\<close>

text \<open>
  C10: for a table with at least one point and an elapsed time strictly between the times
  of the first and the last point, the loop of \<open>calculate_speed\<close> returns from a segment
  that encloses the elapsed time, so the \<open>return last_speed\<close> after the loop is not
  reached. Strictly increasing times are not needed for that.
\<close>

theorem segment_search_finds_segment:
  assumes "0 < num_points (curve_points cfg)"
    and "point_time (curve_points cfg) 0 < sint e"
    and "sint e < point_time (curve_points cfg) (num_points (curve_points cfg) - 1)"
  shows "\<exists>j. Suc j < num_points (curve_points cfg)
           \<and> point_time (curve_points cfg) j \<le> sint e
           \<and> sint e \<le> point_time (curve_points cfg) (Suc j)
           \<and> segment_search (curve_points cfg) e 0 =
               Some (interpolate (curve_points cfg ! (j * 2)) (curve_points cfg ! (j * 2 + 1))
                 (curve_points cfg ! ((j + 1) * 2)) (curve_points cfg ! ((j + 1) * 2 + 1)) e)
           \<and> calculate_speed cfg e =
               interpolate (curve_points cfg ! (j * 2)) (curve_points cfg ! (j * 2 + 1))
                 (curve_points cfg ! ((j + 1) * 2)) (curve_points cfg ! ((j + 1) * 2 + 1)) e"
proof -
  let ?pts = "curve_points cfg"
  from segment_search_first_enclosing[OF assms]
  obtain j where j: "j < num_points ?pts - 1" "point_time ?pts j < sint e"
      "sint e \<le> point_time ?pts (Suc j)"
    and found: "segment_search ?pts e 0 =
                Some (interpolate (?pts ! (j * 2)) (?pts ! (j * 2 + 1))
                        (?pts ! ((j + 1) * 2)) (?pts ! ((j + 1) * 2 + 1)) e)"
    by blast
  have "calculate_speed cfg e = interpolate (?pts ! (j * 2)) (?pts ! (j * 2 + 1))
                        (?pts ! ((j + 1) * 2)) (?pts ! ((j + 1) * 2 + 1)) e"
    using assms found by (simp add: calculate_speed_def point_time_def Let_def)
  moreover have "Suc j < num_points ?pts" "point_time ?pts j \<le> sint e"
    using j by simp_all
  ultimately show ?thesis using j(3) found by blast
qed

theorem segment_search_finds_segment_witness:
  "point_time (curve_points readme_cfg) 0 < sint (500 :: int64_t)
   \<and> sint (500 :: int64_t) < point_time (curve_points readme_cfg) 2
   \<and> segment_search (curve_points readme_cfg) 500 0 = Some (interpolate 300 200 1000 800 500)
   \<and> calculate_speed readme_cfg 500 = interpolate 300 200 1000 800 500"
proof -
  have n: "0 < num_points (curve_points readme_cfg)"
    by (simp add: readme_cfg_def num_points_def)
  have lo: "point_time (curve_points readme_cfg) 0 < sint (500 :: int64_t)"
    by (simp add: readme_cfg_def point_time_def)
  have hi: "sint (500 :: int64_t)
      < point_time (curve_points readme_cfg) (num_points (curve_points readme_cfg) - 1)"
    by (simp add: readme_cfg_def point_time_def num_points_def)
  from segment_search_finds_segment [OF n lo hi]
  obtain j where j: "Suc j < num_points (curve_points readme_cfg)"
      "point_time (curve_points readme_cfg) j \<le> sint (500 :: int64_t)"
      "sint (500 :: int64_t) \<le> point_time (curve_points readme_cfg) (Suc j)"
    and found: "segment_search (curve_points readme_cfg) 500 0 =
        Some (interpolate (curve_points readme_cfg ! (j * 2)) (curve_points readme_cfg ! (j * 2 + 1))
          (curve_points readme_cfg ! ((j + 1) * 2)) (curve_points readme_cfg ! ((j + 1) * 2 + 1)) 500)"
    and speed: "calculate_speed readme_cfg 500 =
        interpolate (curve_points readme_cfg ! (j * 2)) (curve_points readme_cfg ! (j * 2 + 1))
          (curve_points readme_cfg ! ((j + 1) * 2)) (curve_points readme_cfg ! ((j + 1) * 2 + 1)) 500"
    by blast
  from j(1) have "j = 0 \<or> j = 1"
    by (auto simp: readme_cfg_def num_points_def)
  with j(2,3) have "j = 1"
    by (auto simp: readme_cfg_def point_time_def)
  with found speed lo hi show ?thesis
    by (simp add: readme_cfg_def num_points_def point_time_def)
qed

end
